theory Spec2Isabelle
  imports Main
begin

section \<open>Asynchronous calls and their outcomes\<close>

text \<open>
  Both source files are event handlers that call collaborators living outside the
  repository slice (the filter API, the engine, the tab/frame registry, the browser).
  A handler is modelled as a function from its environment (the collaborators, given as
  a record of functions) and its argument to a pair: the final state of the promise the
  \<^verbatim>\<open>async\<close> function returns, and the list of external calls it made, in program order.

  A JavaScript exception is a value. \<open>TypeError\<close> is the one the language itself raises
  (reading a property of \<^verbatim>\<open>undefined\<close>); \<open>ExternalError\<close> stands for whatever a collaborator
  throws or rejects with.
\<close>

datatype js_error = TypeError | ExternalError string

text \<open>
  The eventual state of a promise: fulfilled with a value, rejected with an error, or
  never settled (a hung external call).
\<close>

datatype 'a settled = Fulfilled 'a | Rejected js_error | Pending

text \<open>
  A call to a promise-returning collaborator either throws synchronously or hands back a
  promise.
\<close>

datatype 'a call_result = Threw js_error | Returned "'a settled"

text \<open>
  \<^verbatim>\<open>await f(...)\<close> (and \<^verbatim>\<open>return f(...)\<close> in an \<^verbatim>\<open>async\<close> function): a synchronous throw
  and a rejection both surface as an exception at the await point, a fulfilment yields
  the value, and a promise that never settles suspends the caller for ever.
\<close>

fun await :: "'a call_result \<Rightarrow> 'a settled" where
  "await (Threw e) = Rejected e"
| "await (Returned p) = p"


section \<open>Filter subscription handler (custom-filter.ts)\<close>

subsection \<open>Data passed through\<close>

text \<open>\<^verbatim>\<open>LoadCustomFilterInfoMessage\<close>: \<^verbatim>\<open>message.data = { url, title }\<close>.\<close>

record LoadCustomFilterInfoMessage =
  info_url :: string
  info_title :: string

text \<open>\<^verbatim>\<open>SubscribeToCustomFilterMessage\<close>: \<^verbatim>\<open>message.data.filter = { customUrl, name, trusted }\<close>.\<close>

record SubscribeToCustomFilterMessage =
  filter_customUrl :: string
  filter_name :: string
  filter_trusted :: bool

text \<open>\<^verbatim>\<open>RemoveAntiBannerFilterMessage\<close>: \<^verbatim>\<open>message.data = { filterId }\<close>.\<close>

record RemoveAntiBannerFilterMessage =
  filterId :: int

text \<open>The object literal handed to \<^verbatim>\<open>CustomFilterApi.createFilter\<close>.\<close>

record CreateFilterArgs =
  customUrl :: string
  title :: string
  trusted :: bool
  enabled :: bool

text \<open>
  \<^verbatim>\<open>WebNavigation.OnCommittedDetailsType\<close>: the fields of the navigation-commit event that
  the specification names (tab id, frame id, URL).
\<close>

record OnCommittedDetails =
  tabId :: int
  frameId :: int
  url :: string

text \<open>A frame as recorded by the tab/frame registry; the handler reads only its URL.\<close>

record Frame =
  frame_url :: string

text \<open>The second argument of \<^verbatim>\<open>browser.tabs.executeScript\<close>: \<^verbatim>\<open>{ file, runAt, frameId }\<close>.\<close>

record ExecuteScriptDetails =
  script_file :: string
  script_runAt :: string
  script_frameId :: int

subsection \<open>Collaborators\<close>

text \<open>
  Everything the service imports is a parameter: the three constants
  (\<^verbatim>\<open>BACKGROUND_TAB_ID\<close>, \<^verbatim>\<open>MAIN_FRAME_ID\<close>, \<^verbatim>\<open>SUBSCRIBE_OUTPUT\<close>), the synchronous
  registry lookup \<^verbatim>\<open>tabsApi.getTabFrame\<close> (\<open>None\<close> is \<^verbatim>\<open>null\<close>, an untracked frame), the
  predicate \<^verbatim>\<open>isHttpOrWsRequest\<close>, and the promise-returning operations of
  \<^verbatim>\<open>CustomFilterApi\<close> and \<^verbatim>\<open>browser.tabs\<close>. The result types of the filter API are opaque
  (\<open>'info\<close>, \<open>'meta\<close>): the service only passes them on. \<^verbatim>\<open>Engine.debounceUpdate\<close> is a
  synchronous trigger without a result; it appears as an event of the trace.
\<close>

record ('info, 'meta) background_env =
  BACKGROUND_TAB_ID :: int
  MAIN_FRAME_ID :: int
  SUBSCRIBE_OUTPUT :: string
  getTabFrame :: "int \<Rightarrow> int \<Rightarrow> Frame option"
  isHttpOrWsRequest :: "string \<Rightarrow> bool"
  getFilterInfo :: "string \<Rightarrow> string \<Rightarrow> 'info call_result"
  createFilter :: "CreateFilterArgs \<Rightarrow> 'meta call_result"
  removeFilter :: "int \<Rightarrow> unit call_result"
  executeScript :: "int \<Rightarrow> ExecuteScriptDetails \<Rightarrow> unit call_result"

text \<open>The external calls the service makes, as they appear in a trace.\<close>

datatype background_call =
  GetFilterInfo string string
| CreateFilter CreateFilterArgs
| DebounceUpdate
| RemoveFilter int
| ExecuteScript int ExecuteScriptDetails

fun is_ExecuteScript :: "background_call \<Rightarrow> bool" where
  "is_ExecuteScript (ExecuteScript _ _) = True"
| "is_ExecuteScript _ = False"

fun is_CreateFilter :: "background_call \<Rightarrow> bool" where
  "is_CreateFilter (CreateFilter _) = True"
| "is_CreateFilter _ = False"

subsection \<open>The handlers\<close>

text \<open>
  \<^verbatim>\<open>const { url, title } = message.data; return CustomFilterApi.getFilterInfo(url, title);\<close>
\<close>

definition onCustomFilterInfoLoad ::
  "('info, 'meta) background_env \<Rightarrow> LoadCustomFilterInfoMessage
    \<Rightarrow> 'info settled \<times> background_call list" where
  "onCustomFilterInfoLoad env message =
     (let u = info_url message; t = info_title message
      in (await (getFilterInfo env u t), [GetFilterInfo u t]))"

text \<open>
  \<^verbatim>\<open>const filterMetadata = await CustomFilterApi.createFilter({ customUrl, title: name,
  trusted, enabled: true }); Engine.debounceUpdate(); return filterMetadata;\<close>
\<close>

definition onCustomFilterSubscription ::
  "('info, 'meta) background_env \<Rightarrow> SubscribeToCustomFilterMessage
    \<Rightarrow> 'meta settled \<times> background_call list" where
  "onCustomFilterSubscription env message =
     (let args = \<lparr> customUrl = filter_customUrl message,
                   title = filter_name message,
                   trusted = filter_trusted message,
                   enabled = True \<rparr>
      in case await (createFilter env args) of
           Fulfilled filterMetadata \<Rightarrow>
             (Fulfilled filterMetadata, [CreateFilter args, DebounceUpdate])
         | Rejected e \<Rightarrow> (Rejected e, [CreateFilter args])
         | Pending \<Rightarrow> (Pending, [CreateFilter args]))"

text \<open>\<^verbatim>\<open>const { filterId } = message.data; await CustomFilterApi.removeFilter(filterId);\<close>\<close>

definition onCustomFilterRemove ::
  "('info, 'meta) background_env \<Rightarrow> RemoveAntiBannerFilterMessage
    \<Rightarrow> unit settled \<times> background_call list" where
  "onCustomFilterRemove env message =
     (let i = filterId message
      in case await (removeFilter env i) of
           Fulfilled _ \<Rightarrow> (Fulfilled (), [RemoveFilter i])
         | Rejected e \<Rightarrow> (Rejected e, [RemoveFilter i])
         | Pending \<Rightarrow> (Pending, [RemoveFilter i]))"

text \<open>
  The options of the injection call: \<^verbatim>\<open>{ file: `/${SUBSCRIBE_OUTPUT}.js`, runAt:
  'document_start', frameId }\<close>.
\<close>

definition subscribeScriptDetails ::
  "('info, 'meta) background_env \<Rightarrow> int \<Rightarrow> ExecuteScriptDetails" where
  "subscribeScriptDetails env fid =
     \<lparr> script_file = ''/'' @ SUBSCRIBE_OUTPUT env @ ''.js'',
       script_runAt = ''document_start'',
       script_frameId = fid \<rparr>"

text \<open>
  The navigation listener. The three early returns resolve the promise with no external
  call. Inside \<^verbatim>\<open>try\<close>, a synchronous throw and a rejection of the awaited promise both
  land in the empty \<^verbatim>\<open>catch\<close>, after which the function resolves.
\<close>

definition injectSubscriptionScript ::
  "('info, 'meta) background_env \<Rightarrow> OnCommittedDetails
    \<Rightarrow> unit settled \<times> background_call list" where
  "injectSubscriptionScript env details =
     (let tid = tabId details; fid = frameId details
      in if tid = BACKGROUND_TAB_ID env then (Fulfilled (), [])
         else case getTabFrame env tid fid of
                None \<Rightarrow> (Fulfilled (), [])
              | Some frame \<Rightarrow>
                  (let isDocumentFrame = (fid = MAIN_FRAME_ID env)
                   in if \<not> isDocumentFrame \<or> \<not> isHttpOrWsRequest env (frame_url frame)
                      then (Fulfilled (), [])
                      else (let opts = subscribeScriptDetails env fid
                            in case await (executeScript env tid opts) of
                                 Fulfilled _ \<Rightarrow> (Fulfilled (), [ExecuteScript tid opts])
                               | Rejected e \<Rightarrow> (Fulfilled (), [ExecuteScript tid opts])
                               | Pending \<Rightarrow> (Pending, [ExecuteScript tid opts]))))"


section \<open>Assistant launcher (popup/index.js)\<close>

text \<open>
  A browser tab as \<^verbatim>\<open>chrome.tabs.query\<close> reports it. Both fields the callback reads are
  optional in the browser's API; \<open>None\<close> is \<^verbatim>\<open>undefined\<close>.
\<close>

record Tab =
  tab_id :: "int option"
  tab_url :: "string option"

text \<open>The query object \<^verbatim>\<open>{ active, currentWindow }\<close>.\<close>

record QueryInfo =
  active :: bool
  currentWindow :: bool

text \<open>
  The collaborators of the popup: the browser's tab query, which hands the callback a
  list of tabs, and the imported \<^verbatim>\<open>openAssistant\<close>.
\<close>

record popup_env =
  tabsQuery :: "QueryInfo \<Rightarrow> Tab list"
  openAssistant :: "int option \<Rightarrow> unit call_result"

text \<open>
  The external calls of the popup. \<open>ConsoleLog i u\<close> is the call of \<^verbatim>\<open>log\<close> with the
  template \<^verbatim>\<open>`Opening Assistant UI for tab id=${currentTab.id} url=${url}`\<close>, recorded by
  the two interpolated values.
\<close>

datatype popup_call =
  TabsQuery QueryInfo
| ConsoleLog "int option" "string option"
| OpenAssistant "int option"
| WindowClose

text \<open>\<^verbatim>\<open>tabs[0]\<close>: the first element, \<^verbatim>\<open>undefined\<close> on an empty array.\<close>

fun first_tab :: "Tab list \<Rightarrow> Tab option" where
  "first_tab [] = None"
| "first_tab (t # _) = Some t"

text \<open>
  The \<^verbatim>\<open>async (tabs) => { ... }\<close> callback. Destructuring \<^verbatim>\<open>undefined\<close> raises a
  \<open>TypeError\<close>, which rejects the callback's promise before any further statement runs.
  After the log line the callback awaits \<^verbatim>\<open>openAssistant(currentTab.id)\<close>; \<^verbatim>\<open>window.close()\<close>
  is the statement after the await, so it runs only once that promise is fulfilled.
\<close>

definition queryCallback :: "popup_env \<Rightarrow> Tab list \<Rightarrow> unit settled \<times> popup_call list" where
  "queryCallback env tabs =
     (case first_tab tabs of
        None \<Rightarrow> (Rejected TypeError, [])
      | Some currentTab \<Rightarrow>
          (let u = tab_url currentTab;
               logged = ConsoleLog (tab_id currentTab) u;
               opened = OpenAssistant (tab_id currentTab)
           in case await (openAssistant env (tab_id currentTab)) of
                Fulfilled _ \<Rightarrow> (Fulfilled (), [logged, opened, WindowClose])
              | Rejected e \<Rightarrow> (Rejected e, [logged, opened])
              | Pending \<Rightarrow> (Pending, [logged, opened])))"

text \<open>
  The click listener: \<^verbatim>\<open>chrome.tabs.query({ active: true, currentWindow: true }, callback)\<close>.
  The first component is the state of the promise the callback returns. The browser drops
  that promise, so a rejection there is handled by nobody.
\<close>

definition onOpenAssistantClick :: "popup_env \<Rightarrow> unit settled \<times> popup_call list" where
  "onOpenAssistantClick env =
     (let q = \<lparr> active = True, currentWindow = True \<rparr>;
          r = queryCallback env (tabsQuery env q)
      in (fst r, TabsQuery q # snd r))"

fun unhandledRejection :: "'a settled \<Rightarrow> js_error option" where
  "unhandledRejection (Rejected e) = Some e"
| "unhandledRejection _ = None"

fun is_OpenAssistant :: "popup_call \<Rightarrow> bool" where
  "is_OpenAssistant (OpenAssistant _) = True"
| "is_OpenAssistant _ = False"


section \<open>Example environments\<close>

text \<open>
  Concrete environments on which the theorems below are instantiated. The registry tracks
  the main frame of tabs 1, 2 and 3, and an inner frame of tab 1; the registry's URL for
  tab 2 is not a web URL. Script injection into tab 3 is rejected by the browser. The
  scheme predicate is a prefix test. The filter API describes one URL only, creates a
  filter (answering with the title it was given) for every URL but one, removes filter
  1000, never answers the removal of filter 1002 and throws on any other id. The popup
  environments differ in the tab list the browser reports and in whether the assistant
  attaches.
\<close>

definition example_isHttpOrWsRequest :: "string \<Rightarrow> bool" where
  "example_isHttpOrWsRequest u = (take 4 u = ''http'' \<or> take 2 u = ''ws'')"

definition example_getTabFrame :: "int \<Rightarrow> int \<Rightarrow> Frame option" where
  "example_getTabFrame t f =
     (if (t = 1 \<or> t = 3) \<and> f = 0 then Some \<lparr> frame_url = ''https://example.org/'' \<rparr>
      else if t = 2 \<and> f = 0 then Some \<lparr> frame_url = ''about:blank'' \<rparr>
      else if t = 1 \<and> f = 5 then Some \<lparr> frame_url = ''https://example.org/ad'' \<rparr>
      else None)"

definition example_env :: "(string, string) background_env" where
  "example_env =
     \<lparr> BACKGROUND_TAB_ID = - 1,
       MAIN_FRAME_ID = 0,
       SUBSCRIBE_OUTPUT = ''pages/subscribe'',
       getTabFrame = example_getTabFrame,
       isHttpOrWsRequest = example_isHttpOrWsRequest,
       getFilterInfo = (\<lambda>u t. if u = ''https://example.com/list.txt''
                               then Returned (Fulfilled t)
                               else Returned (Rejected (ExternalError ''unreachable''))),
       createFilter = (\<lambda>a. if customUrl a = ''https://example.com/gone.txt''
                            then Returned (Rejected (ExternalError ''unreachable''))
                            else Returned (Fulfilled (title a))),
       removeFilter = (\<lambda>i. if i = 1000 then Returned (Fulfilled ())
                            else if i = 1002 then Returned Pending
                            else Threw (ExternalError ''no such filter'')),
       executeScript = (\<lambda>t opts. if t = 3 then Returned (Rejected (ExternalError ''no tab''))
                                 else Returned (Fulfilled ())) \<rparr>"

definition example_popup_env :: popup_env where
  "example_popup_env =
     \<lparr> tabsQuery = (\<lambda>q. [\<lparr> tab_id = Some 7, tab_url = Some ''https://example.org/'' \<rparr>]),
       openAssistant = (\<lambda>i. Returned (Fulfilled ())) \<rparr>"

definition example_popup_env_failing :: popup_env where
  "example_popup_env_failing =
     \<lparr> tabsQuery = (\<lambda>q. [\<lparr> tab_id = Some 7, tab_url = Some ''https://example.org/'' \<rparr>]),
       openAssistant = (\<lambda>i. Returned (Rejected (ExternalError ''no receiver''))) \<rparr>"

definition example_popup_env_no_tab :: popup_env where
  "example_popup_env_no_tab =
     \<lparr> tabsQuery = (\<lambda>q. []),
       openAssistant = (\<lambda>i. Returned (Fulfilled ())) \<rparr>"


lemmas example_defs = example_env_def example_getTabFrame_def example_isHttpOrWsRequest_def
  subscribeScriptDetails_def injectSubscriptionScript_def

lemmas popup_defs = onOpenAssistantClick_def queryCallback_def


section \<open>Properties of the message handlers\<close>

text \<open>
  C1. For a subscribe message carrying \<open>{customUrl, name, trusted}\<close> the handler calls
  filter creation exactly once, with that URL, the name as title, that trust flag and
  \<open>enabled = true\<close>. When the creation call resolves with some metadata, the handler's
  calls are that creation followed by the engine-refresh trigger, and it returns that
  metadata unchanged. Conversely, whenever the handler returns a value, the value is what
  creation resolved with and the refresh trigger has been issued. The trigger is issued
  only after creation has resolved: if it occurs in the trace, the creation call was
  fulfilled; on a creation that throws, rejects or never settles the handler's promise
  takes that state and the trigger is not issued.
\<close>

theorem subscription_creates_enabled_then_refreshes:
  "filter is_CreateFilter (snd (onCustomFilterSubscription env message))
     = [CreateFilter \<lparr> customUrl = filter_customUrl message, title = filter_name message,
                       trusted = filter_trusted message, enabled = True \<rparr>]
   \<and> (createFilter env \<lparr> customUrl = filter_customUrl message, title = filter_name message,
                          trusted = filter_trusted message, enabled = True \<rparr>
          = Returned (Fulfilled filterMetadata)
        \<longrightarrow> onCustomFilterSubscription env message
            = (Fulfilled filterMetadata,
               [CreateFilter \<lparr> customUrl = filter_customUrl message,
                               title = filter_name message,
                               trusted = filter_trusted message, enabled = True \<rparr>,
                DebounceUpdate]))
   \<and> (fst (onCustomFilterSubscription env message) = Fulfilled returned
        \<longrightarrow> createFilter env \<lparr> customUrl = filter_customUrl message,
                               title = filter_name message,
                               trusted = filter_trusted message, enabled = True \<rparr>
              = Returned (Fulfilled returned)
            \<and> DebounceUpdate \<in> set (snd (onCustomFilterSubscription env message)))
   \<and> (DebounceUpdate \<in> set (snd (onCustomFilterSubscription env message))
        \<longrightarrow> (\<exists>m. createFilter env \<lparr> customUrl = filter_customUrl message,
                                    title = filter_name message,
                                    trusted = filter_trusted message, enabled = True \<rparr>
                   = Returned (Fulfilled m)))
   \<and> fst (onCustomFilterSubscription env message)
       = await (createFilter env \<lparr> customUrl = filter_customUrl message,
                                    title = filter_name message,
                                    trusted = filter_trusted message, enabled = True \<rparr>)"
proof -
  define args where "args = \<lparr> customUrl = filter_customUrl message, title = filter_name message,
                               trusted = filter_trusted message, enabled = True \<rparr>"
  show ?thesis
    unfolding args_def [symmetric]
  proof (cases "createFilter env args")
    case (Threw e)
    then show "filter is_CreateFilter (snd (onCustomFilterSubscription env message))
        = [CreateFilter args]
      \<and> (createFilter env args = Returned (Fulfilled filterMetadata)
           \<longrightarrow> onCustomFilterSubscription env message
               = (Fulfilled filterMetadata, [CreateFilter args, DebounceUpdate]))
      \<and> (fst (onCustomFilterSubscription env message) = Fulfilled returned
           \<longrightarrow> createFilter env args = Returned (Fulfilled returned)
               \<and> DebounceUpdate \<in> set (snd (onCustomFilterSubscription env message)))
      \<and> (DebounceUpdate \<in> set (snd (onCustomFilterSubscription env message))
           \<longrightarrow> (\<exists>m. createFilter env args = Returned (Fulfilled m)))
      \<and> fst (onCustomFilterSubscription env message) = await (createFilter env args)"
      by (simp add: onCustomFilterSubscription_def args_def [symmetric])
  next
    case (Returned p)
    then show "filter is_CreateFilter (snd (onCustomFilterSubscription env message))
        = [CreateFilter args]
      \<and> (createFilter env args = Returned (Fulfilled filterMetadata)
           \<longrightarrow> onCustomFilterSubscription env message
               = (Fulfilled filterMetadata, [CreateFilter args, DebounceUpdate]))
      \<and> (fst (onCustomFilterSubscription env message) = Fulfilled returned
           \<longrightarrow> createFilter env args = Returned (Fulfilled returned)
               \<and> DebounceUpdate \<in> set (snd (onCustomFilterSubscription env message)))
      \<and> (DebounceUpdate \<in> set (snd (onCustomFilterSubscription env message))
           \<longrightarrow> (\<exists>m. createFilter env args = Returned (Fulfilled m)))
      \<and> fst (onCustomFilterSubscription env message) = await (createFilter env args)"
      by (cases p) (simp_all add: onCustomFilterSubscription_def args_def [symmetric])
  qed
qed

text \<open>
  The message of the specification's example: the list at
  \<^verbatim>\<open>https://example.com/list.txt\<close>, named \<^verbatim>\<open>Test\<close>, untrusted. For the list whose creation
  is rejected, the handler rejects with the same error and issues no trigger.
\<close>

theorem subscription_creates_enabled_then_refreshes_witness:
  "createFilter example_env
      \<lparr> customUrl = ''https://example.com/list.txt'', title = ''Test'',
        trusted = False, enabled = True \<rparr> = Returned (Fulfilled ''Test'')
   \<and> onCustomFilterSubscription example_env
        \<lparr> filter_customUrl = ''https://example.com/list.txt'', filter_name = ''Test'',
          filter_trusted = False \<rparr>
       = (Fulfilled ''Test'',
          [CreateFilter \<lparr> customUrl = ''https://example.com/list.txt'', title = ''Test'',
                          trusted = False, enabled = True \<rparr>,
           DebounceUpdate])
   \<and> fst (onCustomFilterSubscription example_env
             \<lparr> filter_customUrl = ''https://example.com/gone.txt'', filter_name = ''Gone'',
               filter_trusted = True \<rparr>) = Rejected (ExternalError ''unreachable'')
   \<and> DebounceUpdate \<notin> set (snd (onCustomFilterSubscription example_env
             \<lparr> filter_customUrl = ''https://example.com/gone.txt'', filter_name = ''Gone'',
               filter_trusted = True \<rparr>))"
proof -
  have created: "createFilter example_env
      \<lparr> customUrl = ''https://example.com/list.txt'', title = ''Test'',
        trusted = False, enabled = True \<rparr> = Returned (Fulfilled ''Test'')"
    by (simp add: example_env_def)
  from created subscription_creates_enabled_then_refreshes
      [where env = example_env
         and message = "\<lparr> filter_customUrl = ''https://example.com/list.txt'',
                          filter_name = ''Test'', filter_trusted = False \<rparr>"
         and filterMetadata = "''Test''", THEN conjunct2, THEN conjunct1]
  have resolved: "onCustomFilterSubscription example_env
        \<lparr> filter_customUrl = ''https://example.com/list.txt'', filter_name = ''Test'',
          filter_trusted = False \<rparr>
       = (Fulfilled ''Test'',
          [CreateFilter \<lparr> customUrl = ''https://example.com/list.txt'', title = ''Test'',
                          trusted = False, enabled = True \<rparr>,
           DebounceUpdate])"
    by simp
  note gone = subscription_creates_enabled_then_refreshes
      [where env = example_env
         and message = "\<lparr> filter_customUrl = ''https://example.com/gone.txt'',
                          filter_name = ''Gone'', filter_trusted = True \<rparr>"]
  have rejected: "fst (onCustomFilterSubscription example_env
             \<lparr> filter_customUrl = ''https://example.com/gone.txt'', filter_name = ''Gone'',
               filter_trusted = True \<rparr>) = Rejected (ExternalError ''unreachable'')"
    using gone by (simp add: example_env_def)
  have untriggered: "DebounceUpdate \<notin> set (snd (onCustomFilterSubscription example_env
             \<lparr> filter_customUrl = ''https://example.com/gone.txt'', filter_name = ''Gone'',
               filter_trusted = True \<rparr>))"
    using gone by (auto simp add: example_env_def)
  from created resolved rejected untriggered show ?thesis by simp
qed

text \<open>
  C7. The info handler makes the single call \<open>getFilterInfo(url, title)\<close> and its promise
  takes exactly the state of the promise that call returns (a synchronous throw becomes a
  rejection with the same error). The remove handler makes the single call
  \<open>removeFilter(filterId)\<close>, resolves with nothing when that call is fulfilled, and
  rejects with the very error the call threw or rejected with. Neither handler calls
  anything a second time. The remove handler waits for the removal: its promise takes the
  state of the awaited call in every case, so it stays unsettled while the removal never
  settles, and it is fulfilled only if the removal was.
\<close>

theorem info_and_remove_delegate:
  "snd (onCustomFilterInfoLoad env load) = [GetFilterInfo (info_url load) (info_title load)]
   \<and> (getFilterInfo env (info_url load) (info_title load) = Returned p
        \<longrightarrow> fst (onCustomFilterInfoLoad env load) = p)
   \<and> (getFilterInfo env (info_url load) (info_title load) = Threw e
        \<longrightarrow> fst (onCustomFilterInfoLoad env load) = Rejected e)
   \<and> snd (onCustomFilterRemove env remove) = [RemoveFilter (filterId remove)]
   \<and> (removeFilter env (filterId remove) = Returned (Fulfilled ())
        \<longrightarrow> fst (onCustomFilterRemove env remove) = Fulfilled ())
   \<and> (removeFilter env (filterId remove) = Returned (Rejected e')
        \<or> removeFilter env (filterId remove) = Threw e'
        \<longrightarrow> fst (onCustomFilterRemove env remove) = Rejected e')
   \<and> (removeFilter env (filterId remove) = Returned Pending
        \<longrightarrow> fst (onCustomFilterRemove env remove) = Pending)
   \<and> (fst (onCustomFilterRemove env remove) = Fulfilled ()
        \<longrightarrow> removeFilter env (filterId remove) = Returned (Fulfilled ()))
   \<and> fst (onCustomFilterRemove env remove) = await (removeFilter env (filterId remove))
   \<and> fst (onCustomFilterInfoLoad env load)
       = await (getFilterInfo env (info_url load) (info_title load))"
proof (intro conjI impI)
  show "snd (onCustomFilterInfoLoad env load) = [GetFilterInfo (info_url load) (info_title load)]"
    by (simp add: onCustomFilterInfoLoad_def Let_def)
  show "fst (onCustomFilterInfoLoad env load) = p"
    if "getFilterInfo env (info_url load) (info_title load) = Returned p"
    using that by (simp add: onCustomFilterInfoLoad_def Let_def)
  show "fst (onCustomFilterInfoLoad env load) = Rejected e"
    if "getFilterInfo env (info_url load) (info_title load) = Threw e"
    using that by (simp add: onCustomFilterInfoLoad_def Let_def)
  show "snd (onCustomFilterRemove env remove) = [RemoveFilter (filterId remove)]"
    by (simp add: onCustomFilterRemove_def Let_def split: settled.split)
  show "fst (onCustomFilterRemove env remove) = Fulfilled ()"
    if "removeFilter env (filterId remove) = Returned (Fulfilled ())"
    using that by (simp add: onCustomFilterRemove_def Let_def)
  show "fst (onCustomFilterRemove env remove) = Rejected e'"
    if "removeFilter env (filterId remove) = Returned (Rejected e')
        \<or> removeFilter env (filterId remove) = Threw e'"
    using that by (auto simp add: onCustomFilterRemove_def Let_def)
  show "fst (onCustomFilterRemove env remove) = Pending"
    if "removeFilter env (filterId remove) = Returned Pending"
    using that by (simp add: onCustomFilterRemove_def Let_def)
  show relay: "fst (onCustomFilterRemove env remove) = await (removeFilter env (filterId remove))"
    by (cases "await (removeFilter env (filterId remove))")
       (simp_all add: onCustomFilterRemove_def Let_def)
  show "removeFilter env (filterId remove) = Returned (Fulfilled ())"
    if "fst (onCustomFilterRemove env remove) = Fulfilled ()"
    using that relay by (cases "removeFilter env (filterId remove)") simp_all
  show "fst (onCustomFilterInfoLoad env load)
       = await (getFilterInfo env (info_url load) (info_title load))"
    by (simp add: onCustomFilterInfoLoad_def Let_def)
qed

theorem info_and_remove_delegate_witness:
  "onCustomFilterInfoLoad example_env
      \<lparr> info_url = ''https://example.com/list.txt'', info_title = ''Test'' \<rparr>
     = (Fulfilled ''Test'', [GetFilterInfo ''https://example.com/list.txt'' ''Test''])
   \<and> onCustomFilterInfoLoad example_env
      \<lparr> info_url = ''https://example.com/gone.txt'', info_title = ''Test'' \<rparr>
     = (Rejected (ExternalError ''unreachable''),
        [GetFilterInfo ''https://example.com/gone.txt'' ''Test''])
   \<and> onCustomFilterRemove example_env \<lparr> filterId = 1000 \<rparr>
     = (Fulfilled (), [RemoveFilter 1000])
   \<and> onCustomFilterRemove example_env \<lparr> filterId = 1001 \<rparr>
     = (Rejected (ExternalError ''no such filter''), [RemoveFilter 1001])
   \<and> onCustomFilterRemove example_env \<lparr> filterId = 1002 \<rparr>
     = (Pending, [RemoveFilter 1002])"
proof -
  note hung = info_and_remove_delegate
      [where env = example_env and remove = "\<lparr> filterId = 1002 \<rparr>"]
  note found = info_and_remove_delegate
      [where env = example_env
         and load = "\<lparr> info_url = ''https://example.com/list.txt'', info_title = ''Test'' \<rparr>"
         and p = "Fulfilled ''Test''"
         and remove = "\<lparr> filterId = 1000 \<rparr>"]
  note gone = info_and_remove_delegate
      [where env = example_env
         and load = "\<lparr> info_url = ''https://example.com/gone.txt'', info_title = ''Test'' \<rparr>"
         and p = "Rejected (ExternalError ''unreachable'')"
         and remove = "\<lparr> filterId = 1001 \<rparr>"
         and e' = "ExternalError ''no such filter''"]
  have a: "onCustomFilterInfoLoad example_env
      \<lparr> info_url = ''https://example.com/list.txt'', info_title = ''Test'' \<rparr>
     = (Fulfilled ''Test'', [GetFilterInfo ''https://example.com/list.txt'' ''Test''])"
    using found by (simp add: example_env_def prod_eq_iff)
  have b: "onCustomFilterInfoLoad example_env
      \<lparr> info_url = ''https://example.com/gone.txt'', info_title = ''Test'' \<rparr>
     = (Rejected (ExternalError ''unreachable''),
        [GetFilterInfo ''https://example.com/gone.txt'' ''Test''])"
    using gone by (simp add: example_env_def prod_eq_iff)
  have c: "onCustomFilterRemove example_env \<lparr> filterId = 1000 \<rparr>
     = (Fulfilled (), [RemoveFilter 1000])"
    using found by (simp add: example_env_def prod_eq_iff)
  have d: "onCustomFilterRemove example_env \<lparr> filterId = 1001 \<rparr>
     = (Rejected (ExternalError ''no such filter''), [RemoveFilter 1001])"
    using gone by (simp add: example_env_def prod_eq_iff)
  have e: "onCustomFilterRemove example_env \<lparr> filterId = 1002 \<rparr>
     = (Pending, [RemoveFilter 1002])"
    using hung by (simp add: example_env_def prod_eq_iff)
  from a b c d e show ?thesis by simp
qed


section \<open>Properties of the navigation listener\<close>

text \<open>
  C5. When the event's tab id is the reserved background-tab sentinel, the listener makes
  no external call at all, in particular no script injection, and resolves; the event's
  frame id and URL, the registry and the scheme predicate play no part.
\<close>

theorem background_tab_no_injection:
  "tabId details = BACKGROUND_TAB_ID env \<Longrightarrow>
     injectSubscriptionScript env details = (Fulfilled (), [])"
  by (simp add: injectSubscriptionScript_def)

theorem background_tab_no_injection_witness:
  "injectSubscriptionScript example_env
      \<lparr> tabId = - 1, frameId = 0, url = ''https://example.org/'' \<rparr> = (Fulfilled (), [])"
  by (rule background_tab_no_injection) (simp add: example_env_def)

text \<open>
  C6. When the event's frame id is not the main-frame identifier, the listener makes no
  script-injection call (indeed no external call), whether or not the registry tracks the
  frame.
\<close>

theorem non_main_frame_no_injection:
  "frameId details \<noteq> MAIN_FRAME_ID env \<Longrightarrow>
     injectSubscriptionScript env details = (Fulfilled (), [])"
  by (simp add: injectSubscriptionScript_def Let_def split: option.split)

text \<open>An inner frame of tab 1 that the registry tracks with a web URL.\<close>

theorem non_main_frame_no_injection_witness:
  "frameId \<lparr> tabId = 1, frameId = 5, url = ''https://example.org/ad'' \<rparr>
      \<noteq> MAIN_FRAME_ID example_env
   \<and> getTabFrame example_env 1 5 = Some \<lparr> frame_url = ''https://example.org/ad'' \<rparr>
   \<and> injectSubscriptionScript example_env
        \<lparr> tabId = 1, frameId = 5, url = ''https://example.org/ad'' \<rparr> = (Fulfilled (), [])"
proof -
  have inner: "frameId \<lparr> tabId = 1, frameId = 5, url = ''https://example.org/ad'' \<rparr>
      \<noteq> MAIN_FRAME_ID example_env"
    by (simp add: example_env_def)
  have tracked: "getTabFrame example_env 1 5 = Some \<lparr> frame_url = ''https://example.org/ad'' \<rparr>"
    by (simp add: example_env_def example_getTabFrame_def)
  from non_main_frame_no_injection [OF inner] inner tracked show ?thesis by simp
qed

text \<open>
  C2, as the code has it. For every navigation-commit event whose tab id is not the
  background sentinel, whose frame is tracked in the registry, whose frame id is the
  main-frame identifier, and whose registry-recorded frame URL uses an HTTP/WS-family
  scheme, the listener makes exactly one external call: a script injection into that tab
  and frame, with the fixed resource path \<^verbatim>\<open>/SUBSCRIBE_OUTPUT.js\<close> and
  \<^verbatim>\<open>runAt = "document_start"\<close>.
\<close>

theorem main_frame_http_injects_once:
  "tabId details \<noteq> BACKGROUND_TAB_ID env \<Longrightarrow>
   getTabFrame env (tabId details) (frameId details) = Some frame \<Longrightarrow>
   frameId details = MAIN_FRAME_ID env \<Longrightarrow>
   isHttpOrWsRequest env (frame_url frame) \<Longrightarrow>
     snd (injectSubscriptionScript env details) =
       [ExecuteScript (tabId details)
          \<lparr> script_file = ''/'' @ SUBSCRIBE_OUTPUT env @ ''.js'',
            script_runAt = ''document_start'',
            script_frameId = frameId details \<rparr>]"
  by (simp add: injectSubscriptionScript_def subscribeScriptDetails_def Let_def
        split: settled.split)

theorem main_frame_http_injects_once_witness:
  "snd (injectSubscriptionScript example_env
          \<lparr> tabId = 1, frameId = 0, url = ''https://example.org/'' \<rparr>) =
     [ExecuteScript 1
        \<lparr> script_file = ''/pages/subscribe.js'',
          script_runAt = ''document_start'',
          script_frameId = 0 \<rparr>]"
  using main_frame_http_injects_once
    [of "\<lparr> tabId = 1, frameId = 0, url = ''https://example.org/'' \<rparr>" example_env
        "\<lparr> frame_url = ''https://example.org/'' \<rparr>"]
  by (simp add: example_env_def example_getTabFrame_def example_isHttpOrWsRequest_def)

text \<open>
  C2 as stated, with the scheme condition on the event's own URL, fails: the event below
  is for the tracked main frame of tab 2 and carries an HTTPS URL, but the registry's URL
  for that frame is \<^verbatim>\<open>about:blank\<close>, and no injection call is made.
\<close>

theorem event_url_http_counterexample:
  "tabId \<lparr> tabId = 2, frameId = 0, url = ''https://example.org/'' \<rparr>
      \<noteq> BACKGROUND_TAB_ID example_env
   \<and> getTabFrame example_env 2 0 = Some \<lparr> frame_url = ''about:blank'' \<rparr>
   \<and> frameId \<lparr> tabId = 2, frameId = 0, url = ''https://example.org/'' \<rparr>
      = MAIN_FRAME_ID example_env
   \<and> isHttpOrWsRequest example_env
        (url \<lparr> tabId = 2, frameId = 0, url = ''https://example.org/'' \<rparr>)
   \<and> filter is_ExecuteScript
        (snd (injectSubscriptionScript example_env
                \<lparr> tabId = 2, frameId = 0, url = ''https://example.org/'' \<rparr>)) = []"
  by (simp add: example_defs)

text \<open>
  C4, as the code has it. For every navigation-commit event whose frame the registry
  tracks with a recorded URL that is not of the HTTP/WS family, the listener makes no
  script-injection call (no external call at all).
\<close>

theorem registry_url_non_http_no_injection:
  "getTabFrame env (tabId details) (frameId details) = Some frame \<Longrightarrow>
   \<not> isHttpOrWsRequest env (frame_url frame) \<Longrightarrow>
     injectSubscriptionScript env details = (Fulfilled (), [])"
  by (simp add: injectSubscriptionScript_def Let_def)

theorem registry_url_non_http_no_injection_witness:
  "getTabFrame example_env 2 0 = Some \<lparr> frame_url = ''about:blank'' \<rparr>
   \<and> \<not> isHttpOrWsRequest example_env ''about:blank''
   \<and> injectSubscriptionScript example_env
        \<lparr> tabId = 2, frameId = 0, url = ''about:blank'' \<rparr> = (Fulfilled (), [])"
proof -
  have tracked: "getTabFrame example_env
      (tabId \<lparr> tabId = 2, frameId = 0, url = ''about:blank'' \<rparr>)
      (frameId \<lparr> tabId = 2, frameId = 0, url = ''about:blank'' \<rparr>)
        = Some \<lparr> frame_url = ''about:blank'' \<rparr>"
    by (simp add: example_env_def example_getTabFrame_def)
  have scheme: "\<not> isHttpOrWsRequest example_env (frame_url \<lparr> frame_url = ''about:blank'' \<rparr>)"
    by (simp add: example_env_def example_isHttpOrWsRequest_def)
  from registry_url_non_http_no_injection [OF tracked scheme] tracked scheme
  show ?thesis by simp
qed

text \<open>
  C4 as stated, with the scheme condition on the event's committed URL, fails: the event
  below carries \<^verbatim>\<open>about:blank\<close>, which is not of the HTTP/WS family, while the registry
  records an HTTPS URL for the main frame of tab 1, and the script is injected.
\<close>

theorem event_url_non_http_counterexample:
  "\<not> isHttpOrWsRequest example_env
        (url \<lparr> tabId = 1, frameId = 0, url = ''about:blank'' \<rparr>)
   \<and> snd (injectSubscriptionScript example_env
            \<lparr> tabId = 1, frameId = 0, url = ''about:blank'' \<rparr>)
       = [ExecuteScript 1
            \<lparr> script_file = ''/pages/subscribe.js'',
              script_runAt = ''document_start'',
              script_frameId = 0 \<rparr>]"
  by (simp add: example_defs)

text \<open>
  C3. If the injection call the listener makes throws synchronously or returns a promise
  that rejects, the listener's own promise is fulfilled: the error does not reach the
  dispatcher. The trace holds at most one injection call, so nothing is retried.
\<close>

theorem injection_failure_swallowed:
  "executeScript env (tabId details) (subscribeScriptDetails env (frameId details)) = Threw e
   \<or> executeScript env (tabId details) (subscribeScriptDetails env (frameId details))
        = Returned (Rejected e) \<Longrightarrow>
     fst (injectSubscriptionScript env details) = Fulfilled ()
     \<and> length (filter is_ExecuteScript (snd (injectSubscriptionScript env details))) \<le> 1"
  by (auto simp add: injectSubscriptionScript_def Let_def split: option.split)

text \<open>Tab 3 passes every guard and its injection is rejected.\<close>

theorem injection_failure_swallowed_witness:
  "executeScript example_env 3 (subscribeScriptDetails example_env 0)
      = Returned (Rejected (ExternalError ''no tab''))
   \<and> snd (injectSubscriptionScript example_env
            \<lparr> tabId = 3, frameId = 0, url = ''https://example.org/'' \<rparr>)
      = [ExecuteScript 3 (subscribeScriptDetails example_env 0)]
   \<and> fst (injectSubscriptionScript example_env
             \<lparr> tabId = 3, frameId = 0, url = ''https://example.org/'' \<rparr>) = Fulfilled ()
   \<and> length (filter is_ExecuteScript
        (snd (injectSubscriptionScript example_env
                \<lparr> tabId = 3, frameId = 0, url = ''https://example.org/'' \<rparr>))) \<le> 1"
proof -
  have rejected: "executeScript example_env 3 (subscribeScriptDetails example_env 0)
      = Returned (Rejected (ExternalError ''no tab''))"
    by (simp add: example_env_def)
  have injected: "snd (injectSubscriptionScript example_env
            \<lparr> tabId = 3, frameId = 0, url = ''https://example.org/'' \<rparr>)
      = [ExecuteScript 3 (subscribeScriptDetails example_env 0)]"
    by (simp add: example_defs)
  from rejected
  have failing: "executeScript example_env
        (tabId \<lparr> tabId = 3, frameId = 0, url = ''https://example.org/'' \<rparr>)
        (subscribeScriptDetails example_env
           (frameId \<lparr> tabId = 3, frameId = 0, url = ''https://example.org/'' \<rparr>))
          = Threw (ExternalError ''no tab'')
      \<or> executeScript example_env
        (tabId \<lparr> tabId = 3, frameId = 0, url = ''https://example.org/'' \<rparr>)
        (subscribeScriptDetails example_env
           (frameId \<lparr> tabId = 3, frameId = 0, url = ''https://example.org/'' \<rparr>))
          = Returned (Rejected (ExternalError ''no tab''))"
    by simp
  from injection_failure_swallowed [OF failing] rejected injected
  show ?thesis by simp
qed

text \<open>
  C9. The scheme guard reads the URL the registry records for the frame, never the URL the
  event carries. Replacing the event's URL by any other changes nothing. If the registry's
  URL for the frame is not HTTP/WS, no injection occurs whatever URL the event carries,
  an HTTP one included. If the tab is not the background tab, the frame is the tracked
  main frame and the registry's URL is HTTP/WS, the injection is made whatever URL the
  event carries.
\<close>

theorem scheme_guard_reads_registry_url:
  "injectSubscriptionScript env (details\<lparr> url := u \<rparr>) = injectSubscriptionScript env details
   \<and> (getTabFrame env (tabId details) (frameId details) = Some frame
        \<and> \<not> isHttpOrWsRequest env (frame_url frame)
        \<longrightarrow> filter is_ExecuteScript (snd (injectSubscriptionScript env (details\<lparr> url := u \<rparr>))) = [])
   \<and> (tabId details \<noteq> BACKGROUND_TAB_ID env
        \<and> getTabFrame env (tabId details) (frameId details) = Some frame
        \<and> frameId details = MAIN_FRAME_ID env
        \<and> isHttpOrWsRequest env (frame_url frame)
        \<longrightarrow> filter is_ExecuteScript (snd (injectSubscriptionScript env (details\<lparr> url := u \<rparr>)))
             = [ExecuteScript (tabId details) (subscribeScriptDetails env (frameId details))])"
proof (intro conjI impI)
  show "injectSubscriptionScript env (details\<lparr> url := u \<rparr>) = injectSubscriptionScript env details"
    by (simp add: injectSubscriptionScript_def)
next
  assume "getTabFrame env (tabId details) (frameId details) = Some frame
          \<and> \<not> isHttpOrWsRequest env (frame_url frame)"
  then show "filter is_ExecuteScript
               (snd (injectSubscriptionScript env (details\<lparr> url := u \<rparr>))) = []"
    by (simp add: injectSubscriptionScript_def Let_def)
next
  assume guards: "tabId details \<noteq> BACKGROUND_TAB_ID env
        \<and> getTabFrame env (tabId details) (frameId details) = Some frame
        \<and> frameId details = MAIN_FRAME_ID env
        \<and> isHttpOrWsRequest env (frame_url frame)"
  then have tab: "tabId details \<noteq> BACKGROUND_TAB_ID env"
    and tracked: "getTabFrame env (tabId details) (frameId details) = Some frame"
    and main: "frameId details = MAIN_FRAME_ID env"
    and web: "isHttpOrWsRequest env (frame_url frame)"
    by blast+
  from main tab tracked web
  show "filter is_ExecuteScript (snd (injectSubscriptionScript env (details\<lparr> url := u \<rparr>)))
             = [ExecuteScript (tabId details) (subscribeScriptDetails env (frameId details))]"
    by (simp add: injectSubscriptionScript_def Let_def split: settled.split)
qed

text \<open>
  An HTTPS event URL over a registry URL \<^verbatim>\<open>about:blank\<close> (tab 2): nothing is injected.
  An \<^verbatim>\<open>about:blank\<close> event URL over an HTTPS registry URL (tab 1): the script is injected.
\<close>

theorem scheme_guard_reads_registry_url_witness:
  "filter is_ExecuteScript
      (snd (injectSubscriptionScript example_env
              \<lparr> tabId = 2, frameId = 0, url = ''https://example.org/'' \<rparr>)) = []
   \<and> filter is_ExecuteScript
      (snd (injectSubscriptionScript example_env
              \<lparr> tabId = 1, frameId = 0, url = ''about:blank'' \<rparr>))
       = [ExecuteScript 1 (subscribeScriptDetails example_env 0)]"
proof -
  have blank: "getTabFrame example_env 2 0 = Some \<lparr> frame_url = ''about:blank'' \<rparr>
      \<and> \<not> isHttpOrWsRequest example_env ''about:blank''"
    by (simp add: example_env_def example_getTabFrame_def example_isHttpOrWsRequest_def)
  have web: "(1::int) \<noteq> BACKGROUND_TAB_ID example_env
      \<and> getTabFrame example_env 1 0 = Some \<lparr> frame_url = ''https://example.org/'' \<rparr>
      \<and> (0::int) = MAIN_FRAME_ID example_env
      \<and> isHttpOrWsRequest example_env ''https://example.org/''"
    by (simp add: example_env_def example_getTabFrame_def example_isHttpOrWsRequest_def)
  from blank scheme_guard_reads_registry_url
      [where env = example_env
         and details = "\<lparr> tabId = 2, frameId = 0, url = ''ftp://example.org/'' \<rparr>"
         and u = "''https://example.org/''"
         and frame = "\<lparr> frame_url = ''about:blank'' \<rparr>", THEN conjunct2]
  have first: "filter is_ExecuteScript
      (snd (injectSubscriptionScript example_env
              \<lparr> tabId = 2, frameId = 0, url = ''https://example.org/'' \<rparr>)) = []"
    by simp
  from web scheme_guard_reads_registry_url
      [where env = example_env
         and details = "\<lparr> tabId = 1, frameId = 0, url = ''https://example.org/'' \<rparr>"
         and u = "''about:blank''"
         and frame = "\<lparr> frame_url = ''https://example.org/'' \<rparr>", THEN conjunct2]
  have second: "filter is_ExecuteScript
      (snd (injectSubscriptionScript example_env
              \<lparr> tabId = 1, frameId = 0, url = ''about:blank'' \<rparr>))
       = [ExecuteScript 1 (subscribeScriptDetails example_env 0)]"
    by simp
  from first second show ?thesis by simp
qed


section \<open>Properties of the assistant launcher\<close>

text \<open>
  C8, as the code has it. On a click for which the browser's query reports at least one
  tab, the launcher's calls are, in this order: the query for the active tab of the current window, the log line, and
  \<open>openAssistant\<close> with the identifier of the first tab reported; \<open>window.close\<close> follows
  as the last call exactly when the promise of \<open>openAssistant\<close> is fulfilled, and is not
  called otherwise. So the popup never closes before the assistant call has completed.
\<close>

theorem click_opens_assistant_then_closes:
  "tabsQuery env \<lparr> active = True, currentWindow = True \<rparr> = currentTab # others \<Longrightarrow>
     snd (onOpenAssistantClick env)
       = [TabsQuery \<lparr> active = True, currentWindow = True \<rparr>,
          ConsoleLog (tab_id currentTab) (tab_url currentTab),
          OpenAssistant (tab_id currentTab)]
         @ (if openAssistant env (tab_id currentTab) = Returned (Fulfilled ())
            then [WindowClose] else [])"
proof (cases "openAssistant env (tab_id currentTab)")
  case (Threw e)
  assume "tabsQuery env \<lparr> active = True, currentWindow = True \<rparr> = currentTab # others"
  with Threw show ?thesis by (simp add: popup_defs)
next
  case (Returned p)
  assume "tabsQuery env \<lparr> active = True, currentWindow = True \<rparr> = currentTab # others"
  with Returned show ?thesis by (cases p) (simp_all add: popup_defs)
qed

text \<open>
  One active tab with id 7: with an assistant that attaches, the popup closes last; with
  one that rejects, it stays open.
\<close>

theorem click_opens_assistant_then_closes_witness:
  "snd (onOpenAssistantClick example_popup_env)
     = [TabsQuery \<lparr> active = True, currentWindow = True \<rparr>,
        ConsoleLog (Some 7) (Some ''https://example.org/''),
        OpenAssistant (Some 7),
        WindowClose]
   \<and> snd (onOpenAssistantClick example_popup_env_failing)
     = [TabsQuery \<lparr> active = True, currentWindow = True \<rparr>,
        ConsoleLog (Some 7) (Some ''https://example.org/''),
        OpenAssistant (Some 7)]"
proof -
  have tabs: "tabsQuery example_popup_env \<lparr> active = True, currentWindow = True \<rparr>
      = \<lparr> tab_id = Some 7, tab_url = Some ''https://example.org/'' \<rparr> # []"
    by (simp add: example_popup_env_def)
  have tabs': "tabsQuery example_popup_env_failing \<lparr> active = True, currentWindow = True \<rparr>
      = \<lparr> tab_id = Some 7, tab_url = Some ''https://example.org/'' \<rparr> # []"
    by (simp add: example_popup_env_failing_def)
  from click_opens_assistant_then_closes [OF tabs]
  have closes: "snd (onOpenAssistantClick example_popup_env)
     = [TabsQuery \<lparr> active = True, currentWindow = True \<rparr>,
        ConsoleLog (Some 7) (Some ''https://example.org/''),
        OpenAssistant (Some 7),
        WindowClose]"
    by (simp add: example_popup_env_def)
  from click_opens_assistant_then_closes [OF tabs']
  have stays: "snd (onOpenAssistantClick example_popup_env_failing)
     = [TabsQuery \<lparr> active = True, currentWindow = True \<rparr>,
        ConsoleLog (Some 7) (Some ''https://example.org/''),
        OpenAssistant (Some 7)]"
    by (simp add: example_popup_env_failing_def)
  from closes stays show ?thesis by simp
qed

text \<open>
  C8 as stated, for every click, fails: when the browser's query reports no tab, the click
  neither invokes \<open>openAssistant\<close> nor closes the popup.
\<close>

theorem click_without_tab_counterexample:
  "tabsQuery example_popup_env_no_tab \<lparr> active = True, currentWindow = True \<rparr> = []
   \<and> filter is_OpenAssistant (snd (onOpenAssistantClick example_popup_env_no_tab)) = []
   \<and> WindowClose \<notin> set (snd (onOpenAssistantClick example_popup_env_no_tab))"
  by (simp add: popup_defs example_popup_env_no_tab_def)

text \<open>
  C10. On an empty tab list \<^verbatim>\<open>tabs[0]\<close> is \<^verbatim>\<open>undefined\<close> and the destructuring of its
  \<^verbatim>\<open>url\<close> raises a \<open>TypeError\<close> inside the callback, first thing: the callback makes no
  call at all. On a click whose query reports no tab, the only call is the query; neither
  \<open>openAssistant\<close> nor \<open>window.close\<close> is called, and the \<open>TypeError\<close> is an unhandled
  rejection.
\<close>

theorem empty_tab_list_type_error:
  "queryCallback env [] = (Rejected TypeError, [])
   \<and> (tabsQuery env \<lparr> active = True, currentWindow = True \<rparr> = []
        \<longrightarrow> onOpenAssistantClick env
              = (Rejected TypeError, [TabsQuery \<lparr> active = True, currentWindow = True \<rparr>])
            \<and> unhandledRejection (fst (onOpenAssistantClick env)) = Some TypeError
            \<and> filter is_OpenAssistant (snd (onOpenAssistantClick env)) = []
            \<and> WindowClose \<notin> set (snd (onOpenAssistantClick env)))"
  by (simp add: popup_defs)

theorem empty_tab_list_type_error_witness:
  "tabsQuery example_popup_env_no_tab \<lparr> active = True, currentWindow = True \<rparr> = []
   \<and> onOpenAssistantClick example_popup_env_no_tab
        = (Rejected TypeError, [TabsQuery \<lparr> active = True, currentWindow = True \<rparr>])
   \<and> unhandledRejection (fst (onOpenAssistantClick example_popup_env_no_tab)) = Some TypeError"
proof -
  have none: "tabsQuery example_popup_env_no_tab \<lparr> active = True, currentWindow = True \<rparr> = []"
    by (simp add: example_popup_env_no_tab_def)
  from none empty_tab_list_type_error [where env = example_popup_env_no_tab, THEN conjunct2]
  show ?thesis by simp
qed

end
